theory Spec2Isabelle
  imports Complex_Main
begin

section \<open>Data model (database/models.py)\<close>

text \<open>
  The enumerations of the source, constructor for constructor.
\<close>

datatype PetStage = EGG | BABY | TEEN | ADULT | ANCIENT

datatype PetType = NORMAL | GOBLIN | MEME_CAT | CYBER_BOT | TROLL | ANGEL

datatype EventType =
    BIRTH | DEATH | EVOLUTION | FEED | PLAY | GAMBLE_WIN | GAMBLE_LOSS
  | RANDOM_EVENT | CRITICAL_HEALTH | NIGHT_DISTURB

text \<open>
  One row of the table \<open>chats\<close>. Python integers are unbounded, so the integer columns
  are \<open>int\<close>. A \<open>datetime\<close> is an abstract instant (\<open>nat\<close>); every call of
  \<open>datetime.utcnow()\<close> in the source is the parameter \<open>now\<close> of the modelled function.
  The display name \<open>pet_name\<close> only occurs in message texts and is left out.
\<close>

record Chat =
  chat_id :: int
  pet_stage :: PetStage
  pet_type :: PetType
  hunger :: int
  mood :: int
  energy :: int
  health :: int
  xp :: int
  level :: int
  is_alive :: bool
  is_sleeping :: bool
  cursing_count :: int
  meme_count :: int
  code_count :: int
  caps_count :: int
  created_at :: nat
  last_tick :: nat
  last_interaction :: "nat option"
  death_at :: "nat option"

text \<open>The row that \<open>Chat(chat_id=cid)\<close> inserts: every column at its declared default.\<close>

definition new_chat :: "int \<Rightarrow> nat \<Rightarrow> Chat" where
  "new_chat cid now =
     \<lparr> chat_id = cid, pet_stage = EGG, pet_type = NORMAL,
       hunger = 100, mood = 100, energy = 100, health = 100,
       xp = 0, level = 1, is_alive = True, is_sleeping = False,
       cursing_count = 0, meme_count = 0, code_count = 0, caps_count = 0,
       created_at = now, last_tick = now, last_interaction = None, death_at = None \<rparr>"

text \<open>The statistics columns of one row of the table \<open>users\<close>.\<close>

record User =
  karma_points :: int
  feed_count :: int
  play_count :: int
  message_count :: int
  night_disturb_count :: int
  gamble_wins :: int
  gamble_losses :: int

definition new_user :: User where
  "new_user =
     \<lparr> karma_points = 0, feed_count = 0, play_count = 0, message_count = 0,
       night_disturb_count = 0, gamble_wins = 0, gamble_losses = 0 \<rparr>"

text \<open>
  One row of the table \<open>events\<close>: its type and the optional acting user. The free-text
  description is presentation and is left out.
\<close>

record Event =
  event_type :: EventType
  user_id :: "int option"

text \<open>
  The database as seen from one chat: the chat's row (absent before the first
  \<open>/start\<close>), the users of that chat by Telegram id, and the event log in order of
  creation. The model takes the \<open>chat\<close> object a caller holds to be the row: the
  handlers load it immediately before use, every modelled function computes its new
  values from the object before its first write, and the session
  (\<open>expire_on_commit=False\<close>) keeps the loaded object in step with the
  \<open>UPDATE\<close> statements issued through it.
\<close>

record World =
  pet :: "Chat option"
  users :: "int \<rightharpoonup> User"
  events :: "Event list"

definition on_pet :: "(Chat \<Rightarrow> Chat) \<Rightarrow> World \<Rightarrow> World" where
  "on_pet f w = w\<lparr>pet := map_option f (pet w)\<rparr>"

section \<open>Configuration (config.py)\<close>

record Config =
  CRITICAL_HEALTH_THRESHOLD :: int
  NIGHT_START_HOUR :: int
  NIGHT_END_HOUR :: int
  XP_PER_MESSAGE :: int
  XP_PER_FEED :: int
  XP_PER_GAME :: int
  STAT_DECAY_PER_TICK :: int

text \<open>The values in force when no environment variable overrides them.\<close>

definition default_config :: Config where
  "default_config =
     \<lparr> CRITICAL_HEALTH_THRESHOLD = 10, NIGHT_START_HOUR = 0, NIGHT_END_HOUR = 7,
       XP_PER_MESSAGE = 1, XP_PER_FEED = 5, XP_PER_GAME = 10,
       STAT_DECAY_PER_TICK = 5 \<rparr>"

section \<open>Data access (database/crud.py)\<close>

text \<open>
  \<open>ChatCRUD.update_stats\<close>: each vital that is passed (not \<open>None\<close>) is written
  as \<open>max(0, min(100, v))\<close>; \<open>last_interaction\<close> is always stamped.
\<close>

definition clamp_stat :: "int \<Rightarrow> int" where
  "clamp_stat v = max 0 (min 100 v)"

definition update_stats ::
  "nat \<Rightarrow> int option \<Rightarrow> int option \<Rightarrow> int option \<Rightarrow> int option \<Rightarrow> Chat \<Rightarrow> Chat" where
  "update_stats now hunger' mood' energy' health' c =
     (let c1 = (case hunger' of None \<Rightarrow> c | Some v \<Rightarrow> c\<lparr>hunger := clamp_stat v\<rparr>);
          c2 = (case mood' of None \<Rightarrow> c1 | Some v \<Rightarrow> c1\<lparr>mood := clamp_stat v\<rparr>);
          c3 = (case energy' of None \<Rightarrow> c2 | Some v \<Rightarrow> c2\<lparr>energy := clamp_stat v\<rparr>);
          c4 = (case health' of None \<Rightarrow> c3 | Some v \<Rightarrow> c3\<lparr>health := clamp_stat v\<rparr>)
      in c4\<lparr>last_interaction := Some now\<rparr>)"

text \<open>
  A call \<open>update_stats(session, chat_id, **d)\<close> with a dictionary \<open>d\<close> of keyword
  arguments: each parameter receives the entry of its name, or stays \<open>None\<close>.
\<close>

definition update_stats_kw :: "nat \<Rightarrow> (string \<times> int) list \<Rightarrow> Chat \<Rightarrow> Chat" where
  "update_stats_kw now d =
     update_stats now (map_of d ''hunger'') (map_of d ''mood'')
       (map_of d ''energy'') (map_of d ''health'')"

text \<open>\<open>ChatCRUD.add_xp\<close>: 100 XP per level; the level never goes down.\<close>

definition add_xp :: "int \<Rightarrow> Chat \<Rightarrow> Chat" where
  "add_xp xp_amount c =
     (let c1 = c\<lparr>xp := xp c + xp_amount\<rparr>;
          new_level = (xp c1 div 100) + 1
      in if new_level > level c1 then c1\<lparr>level := new_level\<rparr> else c1)"

text \<open>\<open>ChatCRUD.kill_pet\<close>.\<close>

definition kill_pet :: "nat \<Rightarrow> Chat \<Rightarrow> Chat" where
  "kill_pet now c = c\<lparr>is_alive := False, death_at := Some now, health := 0\<rparr>"

text \<open>\<open>ChatCRUD.revive_pet\<close>.\<close>

definition revive_pet :: "nat \<Rightarrow> Chat \<Rightarrow> Chat" where
  "revive_pet now c =
     c\<lparr>is_alive := True, death_at := None, pet_stage := EGG, pet_type := NORMAL,
       hunger := 100, mood := 100, energy := 100, health := 100, xp := 0, level := 1,
       cursing_count := 0, meme_count := 0, code_count := 0, caps_count := 0,
       created_at := now\<rparr>"

text \<open>\<open>ChatCRUD.evolve\<close> and \<open>ChatCRUD.update_last_tick\<close>.\<close>

definition evolve :: "PetStage \<Rightarrow> PetType \<Rightarrow> Chat \<Rightarrow> Chat" where
  "evolve new_stage new_type c = c\<lparr>pet_stage := new_stage, pet_type := new_type\<rparr>"

definition update_last_tick :: "nat \<Rightarrow> Chat \<Rightarrow> Chat" where
  "update_last_tick now c = c\<lparr>last_tick := now\<rparr>"

text \<open>
  \<open>UserCRUD.increment_stat\<close>: an unknown statistic name is ignored; otherwise the
  user is fetched or created with zeroed counters and the named counter is increased.
\<close>

definition valid_stats :: "string list" where
  "valid_stats =
     [''karma_points'', ''feed_count'', ''play_count'', ''message_count'',
      ''night_disturb_count'', ''gamble_wins'', ''gamble_losses'']"

definition get_or_create :: "int \<Rightarrow> World \<Rightarrow> World" where
  "get_or_create uid w =
     (case users w uid of
        None \<Rightarrow> w\<lparr>users := (users w)(uid \<mapsto> new_user)\<rparr>
      | Some u \<Rightarrow> w)"

definition setattr_user :: "string \<Rightarrow> int \<Rightarrow> User \<Rightarrow> User" where
  "setattr_user stat_name amount u =
     (if stat_name = ''karma_points'' then u\<lparr>karma_points := karma_points u + amount\<rparr>
      else if stat_name = ''feed_count'' then u\<lparr>feed_count := feed_count u + amount\<rparr>
      else if stat_name = ''play_count'' then u\<lparr>play_count := play_count u + amount\<rparr>
      else if stat_name = ''message_count'' then u\<lparr>message_count := message_count u + amount\<rparr>
      else if stat_name = ''night_disturb_count''
        then u\<lparr>night_disturb_count := night_disturb_count u + amount\<rparr>
      else if stat_name = ''gamble_wins'' then u\<lparr>gamble_wins := gamble_wins u + amount\<rparr>
      else if stat_name = ''gamble_losses'' then u\<lparr>gamble_losses := gamble_losses u + amount\<rparr>
      else u)"

definition increment_stat :: "int \<Rightarrow> string \<Rightarrow> int \<Rightarrow> World \<Rightarrow> World" where
  "increment_stat uid stat_name amount w =
     (if stat_name \<notin> set valid_stats then w
      else let w1 = get_or_create uid w
           in w1\<lparr>users := (users w1)(uid := map_option (setattr_user stat_name amount) (users w1 uid))\<rparr>)"

text \<open>\<open>EventCRUD.create\<close> appends one row to the log.\<close>

definition create_event :: "EventType \<Rightarrow> int option \<Rightarrow> World \<Rightarrow> World" where
  "create_event et uid w = w\<lparr>events := events w @ [\<lparr>event_type = et, user_id = uid\<rparr>]\<rparr>"

section \<open>Night window (services/pet_logic.py)\<close>

text \<open>
  \<open>PetLogic.is_night_time\<close>, with the wall-clock hour as a parameter.
\<close>

definition is_night_time :: "Config \<Rightarrow> int \<Rightarrow> bool" where
  "is_night_time cfg current_hour =
     (let night_start = NIGHT_START_HOUR cfg; night_end = NIGHT_END_HOUR cfg
      in if night_start < night_end
         then night_start \<le> current_hour \<and> current_hour < night_end
         else current_hour \<ge> night_start \<or> current_hour < night_end)"

text \<open>
  \<open>PetLogic.check_sleep_status\<close>: falling asleep only sets the flag; waking up
  clears it and restores 50 energy through the clamped update.
\<close>

definition check_sleep_status :: "Config \<Rightarrow> nat \<Rightarrow> int \<Rightarrow> Chat \<Rightarrow> World \<Rightarrow> World" where
  "check_sleep_status cfg now current_hour chat w =
     (let is_night = is_night_time cfg current_hour
      in if is_night \<and> \<not> is_sleeping chat
           then on_pet (\<lambda>c. c\<lparr>is_sleeping := True\<rparr>) w
         else if \<not> is_night \<and> is_sleeping chat
           then (let w1 = on_pet (\<lambda>c. c\<lparr>is_sleeping := False\<rparr>) w;
                     new_energy = min 100 (energy chat + 50)
                 in on_pet (update_stats now None None (Some new_energy) None) w1)
         else w)"

section \<open>Pet logic (services/pet_logic.py)\<close>

text \<open>
  The result dictionaries of the actions. The user-facing message of a failure is one
  of three fixed texts; each is a constructor of \<open>Reason\<close>.
\<close>

datatype Reason = PetDead | PetAsleep | TooTired

datatype ActionResult =
    Failure Reason
  | FeedSuccess int int
  | PlaySuccess int int

fun success :: "ActionResult \<Rightarrow> bool" where
  "success (Failure r) = False"
| "success (FeedSuccess h m) = True"
| "success (PlaySuccess m e) = True"

datatype DisturbResult = NotDisturbed | Disturbed int

fun disturbed :: "DisturbResult \<Rightarrow> bool" where
  "disturbed NotDisturbed = False"
| "disturbed (Disturbed h) = True"

text \<open>\<open>PetLogic.tick_stats\<close>, returning the new database and \<open>(is_alive, is_critical)\<close>.\<close>

definition tick_stats :: "Config \<Rightarrow> nat \<Rightarrow> Chat \<Rightarrow> World \<Rightarrow> World \<times> (bool \<times> bool)" where
  "tick_stats cfg now chat w =
     (if \<not> is_alive chat then (w, (False, False))
      else
        let decay = STAT_DECAY_PER_TICK cfg;
            new_hunger = max 0 (hunger chat - decay);
            new_mood = max 0 (mood chat - decay);
            new_energy = max 0 (energy chat - decay);
            health_penalty =
              (if new_hunger < 20 then 10 else 0)
              + (if new_mood < 20 then 5 else 0)
              + (if new_energy < 20 then 5 else (0::int));
            new_health = max 0 (health chat - health_penalty);
            w1 = on_pet (update_stats now (Some new_hunger) (Some new_mood)
                           (Some new_energy) (Some new_health)) w
        in if new_health \<le> 0
             then (create_event DEATH None (on_pet (kill_pet now) w1), (False, True))
           else
             let is_critical = new_health < CRITICAL_HEALTH_THRESHOLD cfg;
                 w2 = (if is_critical then create_event CRITICAL_HEALTH None w1 else w1)
             in (on_pet (update_last_tick now) w2, (True, is_critical)))"

text \<open>\<open>PetLogic.feed\<close>.\<close>

definition feed :: "Config \<Rightarrow> nat \<Rightarrow> Chat \<Rightarrow> int \<Rightarrow> World \<Rightarrow> World \<times> ActionResult" where
  "feed cfg now chat uid w =
     (if \<not> is_alive chat then (w, Failure PetDead)
      else if is_sleeping chat then (w, Failure PetAsleep)
      else
        let new_hunger = min 100 (hunger chat + 30);
            new_mood = min 100 (mood chat + 5);
            w1 = on_pet (update_stats now (Some new_hunger) (Some new_mood) None None) w;
            w2 = on_pet (add_xp (XP_PER_FEED cfg)) w1;
            w3 = create_event FEED (Some uid) w2
        in (w3, FeedSuccess new_hunger new_mood))"

text \<open>\<open>PetLogic.play\<close>.\<close>

definition play :: "Config \<Rightarrow> nat \<Rightarrow> Chat \<Rightarrow> int \<Rightarrow> World \<Rightarrow> World \<times> ActionResult" where
  "play cfg now chat uid w =
     (if \<not> is_alive chat then (w, Failure PetDead)
      else if is_sleeping chat then (w, Failure PetAsleep)
      else if energy chat < 20 then (w, Failure TooTired)
      else
        let new_mood = min 100 (mood chat + 20);
            new_energy = max 0 (energy chat - 10);
            new_hunger = max 0 (hunger chat - 5);
            w1 = on_pet (update_stats now (Some new_hunger) (Some new_mood)
                           (Some new_energy) None) w;
            w2 = on_pet (add_xp (XP_PER_GAME cfg)) w1;
            w3 = create_event PLAY (Some uid) w2
        in (w3, PlaySuccess new_mood new_energy))"

text \<open>\<open>PetLogic.disturb_at_night\<close>.\<close>

definition disturb_at_night :: "nat \<Rightarrow> Chat \<Rightarrow> int \<Rightarrow> World \<Rightarrow> World \<times> DisturbResult" where
  "disturb_at_night now chat uid w =
     (if \<not> is_sleeping chat then (w, NotDisturbed)
      else
        let new_health = max 0 (health chat - 15);
            new_mood = max 0 (mood chat - 20);
            w1 = on_pet (update_stats now None (Some new_mood) None (Some new_health)) w;
            w2 = create_event NIGHT_DISTURB (Some uid) w1
        in (w2, Disturbed new_health))"

section \<open>Evolution (services/evolution.py)\<close>

fun STAGE_THRESHOLDS :: "PetStage \<Rightarrow> int" where
  "STAGE_THRESHOLDS EGG = 0"
| "STAGE_THRESHOLDS BABY = 100"
| "STAGE_THRESHOLDS TEEN = 500"
| "STAGE_THRESHOLDS ADULT = 1500"
| "STAGE_THRESHOLDS ANCIENT = 5000"

definition stage_order :: "PetStage list" where
  "stage_order = [EGG, BABY, TEEN, ADULT, ANCIENT]"

text \<open>\<open>list.index\<close>: the first position of the element, \<open>None\<close> for \<open>ValueError\<close>.\<close>

fun index_of :: "'a list \<Rightarrow> 'a \<Rightarrow> nat option" where
  "index_of [] y = None"
| "index_of (x # xs) y = (if x = y then Some 0 else map_option Suc (index_of xs y))"

definition get_next_stage :: "PetStage \<Rightarrow> PetStage option" where
  "get_next_stage current_stage =
     (case index_of stage_order current_stage of
        None \<Rightarrow> None
      | Some current_index \<Rightarrow>
          if current_index < length stage_order - 1
          then Some (stage_order ! (current_index + 1))
          else None)"

text \<open>\<open>EvolutionSystem.determine_pet_type\<close>: the checks in the order of the source.\<close>

definition determine_pet_type :: "Chat \<Rightarrow> PetType" where
  "determine_pet_type chat =
     (let total_interactions =
            cursing_count chat + meme_count chat + code_count chat + caps_count chat
      in if cursing_count chat = 0 \<and> total_interactions \<ge> 200 then ANGEL
         else if code_count chat \<ge> 50 then CYBER_BOT
         else if meme_count chat \<ge> 50 then MEME_CAT
         else if caps_count chat \<ge> 100 \<and> cursing_count chat \<ge> 30 then TROLL
         else if cursing_count chat \<ge> 50 then GOBLIN
         else NORMAL)"

text \<open>
  \<open>EvolutionSystem.check_and_evolve\<close>, returning the new database and
  \<open>(evolved, new_stage, new_type)\<close>.
\<close>

definition check_and_evolve ::
  "Chat \<Rightarrow> World \<Rightarrow> World \<times> (bool \<times> PetStage option \<times> PetType option)" where
  "check_and_evolve chat w =
     (if \<not> is_alive chat then (w, (False, None, None))
      else case get_next_stage (pet_stage chat) of
        None \<Rightarrow> (w, (False, None, None))
      | Some next_stage \<Rightarrow>
          let required_xp = STAGE_THRESHOLDS next_stage
          in if xp chat < required_xp then (w, (False, None, None))
             else
               let new_type = (if next_stage = TEEN then determine_pet_type chat
                               else pet_type chat);
                   w1 = on_pet (evolve next_stage new_type) w;
                   w2 = create_event EVOLUTION None w1
               in (w2, (True, Some next_stage, Some new_type)))"

section \<open>Random events (services/events.py)\<close>

text \<open>
  The source draws from Python's global generator. Each draw is a parameter of the
  modelled function: a \<open>random.random()\<close> is a real number, and a
  \<open>random.choice(xs)\<close> is a natural number \<open>n\<close> reduced below the length of the
  non-empty list \<open>xs\<close>.
\<close>

definition choice :: "nat \<Rightarrow> 'a list \<Rightarrow> 'a" where
  "choice n xs = xs ! (n mod length xs)"

datatype RandomEvent = FindBoxEvent | VisitorEvent | WeatherEvent

fun name :: "RandomEvent \<Rightarrow> string" where
  "name FindBoxEvent = ''Mysterious Box''"
| "name VisitorEvent = ''Visitor''"
| "name WeatherEvent = ''Weather Change''"

fun probability :: "RandomEvent \<Rightarrow> real" where
  "probability FindBoxEvent = 0.2"
| "probability VisitorEvent = 0.15"
| "probability WeatherEvent = 0.25"

text \<open>
  What \<open>execute\<close> returns: the name of the event and the position of the outcome
  that was drawn from the event's own table.
\<close>

record EventResult =
  event :: string
  drawn :: nat

text \<open>The five outcomes of the box: an optional \<open>stats\<close> entry and an optional \<open>xp\<close> entry.\<close>

record BoxOutcome =
  otype :: string
  stats :: "(string \<times> int) list option"
  oxp :: "int option"

definition box_outcomes :: "Chat \<Rightarrow> BoxOutcome list" where
  "box_outcomes chat =
     [ \<lparr>otype = ''positive'', stats = Some [(''hunger'', min 100 (hunger chat + 50))], oxp = None\<rparr>,
       \<lparr>otype = ''positive'', stats = Some [(''energy'', min 100 (energy chat + 30))], oxp = None\<rparr>,
       \<lparr>otype = ''positive'', stats = Some [(''mood'', min 100 (mood chat + 40))], oxp = None\<rparr>,
       \<lparr>otype = ''negative'', stats = Some [(''health'', max 0 (health chat - 20))], oxp = None\<rparr>,
       \<lparr>otype = ''xp'', stats = None, oxp = Some 50\<rparr> ]"

definition box_execute :: "nat \<Rightarrow> nat \<Rightarrow> Chat \<Rightarrow> World \<Rightarrow> World \<times> EventResult" where
  "box_execute now k chat w =
     (let outcome = choice k (box_outcomes chat);
          w1 = (case stats outcome of
                  Some d \<Rightarrow> on_pet (update_stats_kw now d) w
                | None \<Rightarrow> w);
          w2 = (case oxp outcome of
                  Some x \<Rightarrow> on_pet (add_xp x) w1
                | None \<Rightarrow> w1);
          w3 = create_event RANDOM_EVENT None w2
      in (w3, \<lparr>event = name FindBoxEvent, drawn = k mod length (box_outcomes chat)\<rparr>))"

text \<open>The three visitors: the effect is the string \<open>heal_all\<close> or a dictionary of vitals.\<close>

datatype VisitorEffect = HealAll | Effect "(string \<times> int) list"

definition visitors :: "Chat \<Rightarrow> VisitorEffect list" where
  "visitors chat =
     [ HealAll,
       Effect [(''hunger'', max 0 (hunger chat - 30))],
       Effect [(''mood'', min 100 (mood chat + 50))] ]"

definition visitor_execute :: "nat \<Rightarrow> nat \<Rightarrow> Chat \<Rightarrow> World \<Rightarrow> World \<times> EventResult" where
  "visitor_execute now k chat w =
     (let visitor = choice k (visitors chat);
          w1 = (case visitor of
                  HealAll \<Rightarrow> on_pet (update_stats now (Some 100) (Some 100) (Some 100) (Some 100)) w
                | Effect d \<Rightarrow> on_pet (update_stats_kw now d) w);
          w2 = create_event RANDOM_EVENT None w1
      in (w2, \<lparr>event = name VisitorEvent, drawn = k mod length (visitors chat)\<rparr>))"

text \<open>The four kinds of weather, each with a dictionary of vitals.\<close>

definition weather_types :: "Chat \<Rightarrow> (string \<times> int) list list" where
  "weather_types chat =
     [ [(''mood'', min 100 (mood chat + 20))],
       [(''mood'', max 0 (mood chat - 10))],
       [(''mood'', max 0 (mood chat - 20)), (''energy'', max 0 (energy chat - 15))],
       [(''mood'', min 100 (mood chat + 15))] ]"

definition weather_execute :: "nat \<Rightarrow> nat \<Rightarrow> Chat \<Rightarrow> World \<Rightarrow> World \<times> EventResult" where
  "weather_execute now k chat w =
     (let weather = choice k (weather_types chat);
          w1 = on_pet (update_stats_kw now weather) w;
          w2 = create_event RANDOM_EVENT None w1
      in (w2, \<lparr>event = name WeatherEvent, drawn = k mod length (weather_types chat)\<rparr>))"

fun execute :: "RandomEvent \<Rightarrow> nat \<Rightarrow> nat \<Rightarrow> Chat \<Rightarrow> World \<Rightarrow> World \<times> EventResult" where
  "execute FindBoxEvent now k chat w = box_execute now k chat w"
| "execute VisitorEvent now k chat w = visitor_execute now k chat w"
| "execute WeatherEvent now k chat w = weather_execute now k chat w"

text \<open>
  \<open>EventManager\<close>: the registered events, and \<open>trigger_random_event\<close> with its
  four draws in the order the source makes them: the overall roll \<open>r1\<close>, the choice
  \<open>n\<close> of the event, the event's own roll \<open>r2\<close>, and the choice \<open>k\<close> of the outcome.
\<close>

definition manager_events :: "RandomEvent list" where
  "manager_events = [FindBoxEvent, VisitorEvent, WeatherEvent]"

definition trigger_random_event ::
  "nat \<Rightarrow> real \<Rightarrow> nat \<Rightarrow> real \<Rightarrow> nat \<Rightarrow> Chat \<Rightarrow> World \<Rightarrow> World \<times> EventResult option" where
  "trigger_random_event now r1 n r2 k chat w =
     (if \<not> is_alive chat \<or> is_sleeping chat then (w, None)
      else if r1 > 0.3 then (w, None)
      else
        let ev = choice n manager_events
        in if r2 > probability ev then (w, None)
           else (case execute ev now k chat w of (w', result) \<Rightarrow> (w', Some result)))"

section \<open>Command and callback handlers (bot/handlers)\<close>

text \<open>
  What a handler answers. The texts are presentation; each constructor stands for one
  answer of the source and carries the numbers the text shows.
\<close>

datatype Reply =
    GroupsOnly
  | NoPetYet
  | Born
  | AlreadyLives
  | DisturbedReply int
  | ActionReply ActionResult
  | PetIsDead
  | TooHungryToGamble
  | GambleOffer
  | Won int
  | Lost int

text \<open>\<open>ChatCRUD.get_or_create\<close> for the chat row, and \<open>cmd_start\<close>.\<close>

definition get_or_create_chat :: "int \<Rightarrow> nat \<Rightarrow> World \<Rightarrow> World" where
  "get_or_create_chat cid now w =
     (case pet w of None \<Rightarrow> w\<lparr>pet := Some (new_chat cid now)\<rparr> | Some c \<Rightarrow> w)"

definition cmd_start :: "bool \<Rightarrow> int \<Rightarrow> nat \<Rightarrow> World \<Rightarrow> World \<times> Reply" where
  "cmd_start private cid now w =
     (if private then (w, GroupsOnly)
      else
        let w1 = get_or_create_chat cid now w
        in case pet w1 of
             None \<Rightarrow> (w1, NoPetYet)
           | Some chat \<Rightarrow>
               if \<not> is_alive chat
               then (create_event BIRTH None (on_pet (revive_pet now) w1), Born)
               else (w1, AlreadyLives))"

text \<open>\<open>cmd_feed\<close> and \<open>cmd_play\<close>: the night check comes first, then the action.\<close>

definition cmd_feed :: "Config \<Rightarrow> bool \<Rightarrow> int \<Rightarrow> nat \<Rightarrow> World \<Rightarrow> World \<times> Reply" where
  "cmd_feed cfg private uid now w =
     (if private then (w, GroupsOnly)
      else case pet w of
        None \<Rightarrow> (w, NoPetYet)
      | Some chat \<Rightarrow>
          let feed_pet = (\<lambda>w0.
                case feed cfg now chat uid w0 of (w1, result) \<Rightarrow>
                  (if success result
                   then increment_stat uid ''karma_points'' 5
                          (increment_stat uid ''feed_count'' 1 w1)
                   else w1, ActionReply result))
          in if is_sleeping chat
             then (case disturb_at_night now chat uid w of
                     (w1, Disturbed h) \<Rightarrow>
                       (increment_stat uid ''night_disturb_count'' 1 w1, DisturbedReply h)
                   | (w1, NotDisturbed) \<Rightarrow> feed_pet w1)
             else feed_pet w)"

definition cmd_play :: "Config \<Rightarrow> bool \<Rightarrow> int \<Rightarrow> nat \<Rightarrow> World \<Rightarrow> World \<times> Reply" where
  "cmd_play cfg private uid now w =
     (if private then (w, GroupsOnly)
      else case pet w of
        None \<Rightarrow> (w, NoPetYet)
      | Some chat \<Rightarrow>
          let play_pet = (\<lambda>w0.
                case play cfg now chat uid w0 of (w1, result) \<Rightarrow>
                  (if success result
                   then increment_stat uid ''karma_points'' 3
                          (increment_stat uid ''play_count'' 1 w1)
                   else w1, ActionReply result))
          in if is_sleeping chat
             then (case disturb_at_night now chat uid w of
                     (w1, Disturbed h) \<Rightarrow>
                       (increment_stat uid ''night_disturb_count'' 1 w1, DisturbedReply h)
                   | (w1, NotDisturbed) \<Rightarrow> play_pet w1)
             else play_pet w)"

text \<open>
  \<open>cmd_gamble\<close> only offers the game; \<open>callback_gamble_play\<close> flips the coin
  (\<open>random.choice([True, False])\<close>, the draw \<open>n\<close>) and applies the result.
\<close>

definition cmd_gamble :: "bool \<Rightarrow> World \<Rightarrow> World \<times> Reply" where
  "cmd_gamble private w =
     (if private then (w, GroupsOnly)
      else case pet w of
        None \<Rightarrow> (w, NoPetYet)
      | Some chat \<Rightarrow>
          if \<not> is_alive chat then (w, PetIsDead)
          else if hunger chat < 30 then (w, TooHungryToGamble)
          else (w, GambleOffer))"

definition callback_gamble_play :: "nat \<Rightarrow> int \<Rightarrow> nat \<Rightarrow> World \<Rightarrow> World \<times> Reply" where
  "callback_gamble_play n uid now w =
     (case pet w of
        None \<Rightarrow> (w, PetIsDead)
      | Some chat \<Rightarrow>
          if \<not> is_alive chat then (w, PetIsDead)
          else
            let won = choice n [True, False]
            in if won
               then (let new_hunger = min 100 (hunger chat + 50);
                         w1 = on_pet (update_stats now (Some new_hunger) None None None) w;
                         w2 = increment_stat uid ''gamble_wins'' 1 w1;
                         w3 = increment_stat uid ''karma_points'' 10 w2;
                         w4 = create_event GAMBLE_WIN (Some uid) w3
                     in (w4, Won new_hunger))
               else (let new_hunger = max 0 (hunger chat - 30);
                         w1 = on_pet (update_stats now (Some new_hunger) None None None) w;
                         w2 = increment_stat uid ''gamble_losses'' 1 w1;
                         w3 = increment_stat uid ''karma_points'' (- 5) w2;
                         w4 = create_event GAMBLE_LOSS (Some uid) w3
                     in (w4, Lost new_hunger)))"

section \<open>Scheduler (services/scheduler.py)\<close>

text \<open>
  The messages the scheduler sends, and the body of the loop of
  \<open>BotScheduler.tick_all_pets\<close> for one chat of the query \<open>is_alive == True\<close>:
  sleep check, tick, then the evolution check only if the tick reported the pet alive.
\<close>

datatype Notification = DeathNotice | CriticalAlert | EvolutionNotice PetStage PetType

definition tick_pet :: "Config \<Rightarrow> nat \<Rightarrow> int \<Rightarrow> Chat \<Rightarrow> World \<Rightarrow> World \<times> Notification list" where
  "tick_pet cfg now current_hour chat w =
     (let w1 = check_sleep_status cfg now current_hour chat w;
          chat1 = (case pet w1 of Some c \<Rightarrow> c | None \<Rightarrow> chat)
      in case tick_stats cfg now chat1 w1 of (w2, (alive, is_critical)) \<Rightarrow>
           let sent = (if \<not> alive then [DeathNotice]
                       else if is_critical then [CriticalAlert] else []);
               chat2 = (case pet w2 of Some c \<Rightarrow> c | None \<Rightarrow> chat1)
           in if alive
              then (case check_and_evolve chat2 w2 of
                      (w3, (evolved, new_stage, new_type)) \<Rightarrow>
                        (w3, sent @ (case (evolved, new_stage, new_type) of
                                       (True, Some s, Some t) \<Rightarrow> [EvolutionNotice s t]
                                     | _ \<Rightarrow> [])))
              else (w2, sent))"

definition tick_all_pets :: "Config \<Rightarrow> nat \<Rightarrow> int \<Rightarrow> World \<Rightarrow> World \<times> Notification list" where
  "tick_all_pets cfg now current_hour w =
     (case pet w of
        None \<Rightarrow> (w, [])
      | Some chat \<Rightarrow> if is_alive chat then tick_pet cfg now current_hour chat w else (w, []))"

section \<open>Predicates and reference definitions used in the statements\<close>

text \<open>
  The range the model declares for the four vitals (\<open># Stats (0-100)\<close> in
  database/models.py), for a row and for the row of a database.
\<close>

definition vitals_ok :: "Chat \<Rightarrow> bool" where
  "vitals_ok c \<longleftrightarrow>
     0 \<le> hunger c \<and> hunger c \<le> 100 \<and> 0 \<le> mood c \<and> mood c \<le> 100 \<and>
     0 \<le> energy c \<and> energy c \<le> 100 \<and> 0 \<le> health c \<and> health c \<le> 100"

definition pet_ok :: "World \<Rightarrow> bool" where
  "pet_ok w \<longleftrightarrow> (case pet w of None \<Rightarrow> False | Some c \<Rightarrow> vitals_ok c)"

text \<open>
  The type rules as the specification words them: a list of rules in priority order,
  the first rule whose condition holds gives the type, and \<open>NORMAL\<close> is the
  fallback. This definition is written from the specification, to be compared with
  \<open>determine_pet_type\<close>, which is written from the source.
\<close>

definition determineType_spec_rules :: "(PetType \<times> (Chat \<Rightarrow> bool)) list" where
  "determineType_spec_rules =
     [ (ANGEL, \<lambda>p. cursing_count p = 0
                  \<and> cursing_count p + meme_count p + code_count p + caps_count p \<ge> 200),
       (CYBER_BOT, \<lambda>p. code_count p \<ge> 50),
       (MEME_CAT, \<lambda>p. meme_count p \<ge> 50),
       (TROLL, \<lambda>p. caps_count p \<ge> 100 \<and> cursing_count p \<ge> 30),
       (GOBLIN, \<lambda>p. cursing_count p \<ge> 50) ]"

fun first_match :: "(PetType \<times> (Chat \<Rightarrow> bool)) list \<Rightarrow> Chat \<Rightarrow> PetType" where
  "first_match [] p = NORMAL"
| "first_match ((t, cond) # rules) p = (if cond p then t else first_match rules p)"

definition determineType_spec :: "Chat \<Rightarrow> PetType" where
  "determineType_spec p = first_match determineType_spec_rules p"

section \<open>Basic facts about the data access layer\<close>

lemma clamp_stat_range: "0 \<le> clamp_stat v \<and> clamp_stat v \<le> 100"
  by (simp add: clamp_stat_def)

lemma clamp_stat_id: "0 \<le> v \<Longrightarrow> v \<le> 100 \<Longrightarrow> clamp_stat v = v"
  by (simp add: clamp_stat_def)

lemma update_stats_hunger:
  "hunger (update_stats now h m e hl c) = (case h of None \<Rightarrow> hunger c | Some v \<Rightarrow> clamp_stat v)"
  by (simp add: update_stats_def Let_def split: option.splits)

lemma update_stats_mood:
  "mood (update_stats now h m e hl c) = (case m of None \<Rightarrow> mood c | Some v \<Rightarrow> clamp_stat v)"
  by (simp add: update_stats_def Let_def split: option.splits)

lemma update_stats_energy:
  "energy (update_stats now h m e hl c) = (case e of None \<Rightarrow> energy c | Some v \<Rightarrow> clamp_stat v)"
  by (simp add: update_stats_def Let_def split: option.splits)

lemma update_stats_health:
  "health (update_stats now h m e hl c) = (case hl of None \<Rightarrow> health c | Some v \<Rightarrow> clamp_stat v)"
  by (simp add: update_stats_def Let_def split: option.splits)

lemmas update_stats_vitals =
  update_stats_hunger update_stats_mood update_stats_energy update_stats_health

lemma update_stats_other:
  "chat_id (update_stats now h m e hl c) = chat_id c"
  "pet_stage (update_stats now h m e hl c) = pet_stage c"
  "pet_type (update_stats now h m e hl c) = pet_type c"
  "xp (update_stats now h m e hl c) = xp c"
  "level (update_stats now h m e hl c) = level c"
  "is_alive (update_stats now h m e hl c) = is_alive c"
  "is_sleeping (update_stats now h m e hl c) = is_sleeping c"
  "cursing_count (update_stats now h m e hl c) = cursing_count c"
  "meme_count (update_stats now h m e hl c) = meme_count c"
  "code_count (update_stats now h m e hl c) = code_count c"
  "caps_count (update_stats now h m e hl c) = caps_count c"
  "created_at (update_stats now h m e hl c) = created_at c"
  "last_tick (update_stats now h m e hl c) = last_tick c"
  "death_at (update_stats now h m e hl c) = death_at c"
  "last_interaction (update_stats now h m e hl c) = Some now"
  by (simp_all add: update_stats_def Let_def split: option.splits)

lemma update_stats_preserves_vitals_ok:
  "vitals_ok c \<Longrightarrow> vitals_ok (update_stats now h m e hl c)"
  by (simp add: vitals_ok_def update_stats_vitals clamp_stat_range split: option.splits)

lemma update_stats_kw_preserves_vitals_ok:
  "vitals_ok c \<Longrightarrow> vitals_ok (update_stats_kw now d c)"
  by (simp add: update_stats_kw_def update_stats_preserves_vitals_ok)

lemma add_xp_vitals:
  "hunger (add_xp x c) = hunger c" "mood (add_xp x c) = mood c"
  "energy (add_xp x c) = energy c" "health (add_xp x c) = health c"
  by (simp_all add: add_xp_def Let_def)

lemma add_xp_preserves_vitals_ok: "vitals_ok c \<Longrightarrow> vitals_ok (add_xp x c)"
  by (simp add: vitals_ok_def add_xp_vitals)

lemma pet_on_pet: "pet (on_pet f w) = map_option f (pet w)"
  by (simp add: on_pet_def)

lemma events_on_pet: "events (on_pet f w) = events w"
  by (simp add: on_pet_def)

lemma users_on_pet: "users (on_pet f w) = users w"
  by (simp add: on_pet_def)

lemma pet_create_event: "pet (create_event et uid w) = pet w"
  by (simp add: create_event_def)

lemma events_create_event:
  "events (create_event et uid w) = events w @ [\<lparr>event_type = et, user_id = uid\<rparr>]"
  by (simp add: create_event_def)

lemma users_create_event: "users (create_event et uid w) = users w"
  by (simp add: create_event_def)

lemma pet_increment_stat: "pet (increment_stat uid s a w) = pet w"
  by (simp add: increment_stat_def get_or_create_def Let_def split: option.splits)

lemma events_increment_stat: "events (increment_stat uid s a w) = events w"
  by (simp add: increment_stat_def get_or_create_def Let_def split: option.splits)

lemma pet_ok_on_pet:
  "pet_ok w \<Longrightarrow> (\<And>c. vitals_ok c \<Longrightarrow> vitals_ok (f c)) \<Longrightarrow> pet_ok (on_pet f w)"
  by (auto simp: pet_ok_def pet_on_pet split: option.splits)

lemma pet_ok_create_event: "pet_ok (create_event et uid w) = pet_ok w"
  by (simp add: pet_ok_def pet_create_event)

section \<open>The clamped update keeps every vital in range\<close>

lemma box_execute_ok: "pet_ok w \<Longrightarrow> pet_ok (fst (box_execute now k chat w))"
  by (simp add: box_execute_def Let_def pet_ok_create_event pet_ok_on_pet
        update_stats_kw_preserves_vitals_ok add_xp_preserves_vitals_ok split: option.splits)

lemma visitor_execute_ok: "pet_ok w \<Longrightarrow> pet_ok (fst (visitor_execute now k chat w))"
  by (simp add: visitor_execute_def Let_def pet_ok_create_event pet_ok_on_pet
        update_stats_kw_preserves_vitals_ok update_stats_preserves_vitals_ok
        split: VisitorEffect.splits)

lemma weather_execute_ok: "pet_ok w \<Longrightarrow> pet_ok (fst (weather_execute now k chat w))"
  by (simp add: weather_execute_def Let_def pet_ok_create_event pet_ok_on_pet
        update_stats_kw_preserves_vitals_ok)

lemma execute_ok: "pet_ok w \<Longrightarrow> pet_ok (fst (execute ev now k chat w))"
  by (cases ev) (simp_all add: box_execute_ok visitor_execute_ok weather_execute_ok)

text \<open>
  Claim C3. Whatever optional integers \<open>update_stats\<close> is called with, every vital it
  writes lies in \<open>[0,100]\<close> afterwards and every vital it does not write keeps its
  value. Rows are created and revived with vitals in range and \<open>kill_pet\<close> keeps
  them there, so a row stays in range through every call of \<open>update_stats\<close>, also
  through the outcome of any random event (box, visitor, weather), whatever the event
  read from the \<open>chat\<close> object. A call that passes no vital, or passes the current
  values of an in-range row, changes nothing but the interaction stamp.
\<close>

theorem update_stats_clamped:
  "(\<forall>v. h = Some v \<longrightarrow> hunger (update_stats now h m e hl c) \<in> {0..100})
   \<and> (\<forall>v. m = Some v \<longrightarrow> mood (update_stats now h m e hl c) \<in> {0..100})
   \<and> (\<forall>v. e = Some v \<longrightarrow> energy (update_stats now h m e hl c) \<in> {0..100})
   \<and> (\<forall>v. hl = Some v \<longrightarrow> health (update_stats now h m e hl c) \<in> {0..100})
   \<and> (h = None \<longrightarrow> hunger (update_stats now h m e hl c) = hunger c)
   \<and> (m = None \<longrightarrow> mood (update_stats now h m e hl c) = mood c)
   \<and> (e = None \<longrightarrow> energy (update_stats now h m e hl c) = energy c)
   \<and> (hl = None \<longrightarrow> health (update_stats now h m e hl c) = health c)
   \<and> (vitals_ok c \<longrightarrow> vitals_ok (update_stats now h m e hl c))
   \<and> vitals_ok (new_chat cid t0) \<and> vitals_ok (revive_pet now c)
   \<and> (vitals_ok c \<longrightarrow> vitals_ok (kill_pet now c))
   \<and> (pet_ok w \<longrightarrow> pet_ok (fst (execute ev now k chat w)))
   \<and> update_stats now None None None None c = c\<lparr>last_interaction := Some now\<rparr>
   \<and> (vitals_ok c \<longrightarrow>
        update_stats now (Some (hunger c + 0)) (Some (mood c + 0)) (Some (energy c + 0))
          (Some (health c + 0)) c = c\<lparr>last_interaction := Some now\<rparr>)"
  apply (intro conjI)
  apply (simp_all add: update_stats_vitals clamp_stat_range update_stats_preserves_vitals_ok
           execute_ok)
  subgoal by (simp add: vitals_ok_def new_chat_def)
  subgoal by (simp add: vitals_ok_def revive_pet_def)
  subgoal by (simp add: vitals_ok_def kill_pet_def)
  subgoal by (simp add: update_stats_def)
  subgoal by (simp add: update_stats_def vitals_ok_def clamp_stat_id)
  done

theorem update_stats_clamped_witness:
  "vitals_ok (new_chat 1 0)
   \<and> pet_ok \<lparr>pet = Some (new_chat 1 0), users = Map.empty, events = []\<rparr>
   \<and> hunger (update_stats 5 (Some 250) None (Some (- 40)) None (new_chat 1 0)) \<in> {0..100}
   \<and> energy (update_stats 5 (Some 250) None (Some (- 40)) None (new_chat 1 0)) \<in> {0..100}
   \<and> mood (update_stats 5 (Some 250) None (Some (- 40)) None (new_chat 1 0)) = 100
   \<and> vitals_ok (update_stats 5 (Some 250) None (Some (- 40)) None (new_chat 1 0))
   \<and> pet_ok (fst (execute VisitorEvent 5 1 (new_chat 1 0)
                \<lparr>pet = Some (new_chat 1 0), users = Map.empty, events = []\<rparr>))"
proof -
  have ok: "vitals_ok (new_chat 1 0)"
    by (simp add: vitals_ok_def new_chat_def)
  have wok: "pet_ok \<lparr>pet = Some (new_chat 1 0), users = Map.empty, events = []\<rparr>"
    by (simp add: pet_ok_def ok)
  have mood0: "mood (new_chat 1 0) = 100"
    by (simp add: new_chat_def)
  show ?thesis
    using update_stats_clamped
            [where h = "Some 250" and now = 5 and m = None and e = "Some (- 40)" and hl = None
               and c = "new_chat 1 0" and ev = VisitorEvent and k = 1 and chat = "new_chat 1 0"
               and w = "\<lparr>pet = Some (new_chat 1 0), users = Map.empty, events = []\<rparr>"]
          ok wok mood0
    by simp
qed

section \<open>The night window\<close>

text \<open>
  Claim C8. \<open>is_night_time\<close> implements the window from the start hour (inclusive) to
  the end hour (exclusive): when the start is below the end, hour \<open>h\<close> is night exactly
  when \<open>start \<le> h < end\<close>; when the start is above the end the window wraps past
  midnight, so among the hours 0 to 23 the night hours are those from the start to 23
  and those from 0 up to the end. With start 22 and end 6, hours 23 and 2 are night and
  hour 12 is not.
\<close>

theorem is_night_time_window:
  "(NIGHT_START_HOUR cfg < NIGHT_END_HOUR cfg \<longrightarrow>
      is_night_time cfg h = (NIGHT_START_HOUR cfg \<le> h \<and> h < NIGHT_END_HOUR cfg))
   \<and> (NIGHT_END_HOUR cfg < NIGHT_START_HOUR cfg \<and> 0 \<le> h \<and> h < 24 \<longrightarrow>
      is_night_time cfg h = (h \<in> {NIGHT_START_HOUR cfg ..< 24} \<union> {0 ..< NIGHT_END_HOUR cfg}))
   \<and> (NIGHT_START_HOUR cfg = 22 \<and> NIGHT_END_HOUR cfg = 6 \<longrightarrow>
      is_night_time cfg 23 \<and> is_night_time cfg 2 \<and> \<not> is_night_time cfg 12)"
  by (auto simp: is_night_time_def Let_def)

theorem is_night_time_window_witness:
  "is_night_time (default_config\<lparr>NIGHT_START_HOUR := 22, NIGHT_END_HOUR := 6\<rparr>) 23
   \<and> is_night_time (default_config\<lparr>NIGHT_START_HOUR := 22, NIGHT_END_HOUR := 6\<rparr>) 2
   \<and> \<not> is_night_time (default_config\<lparr>NIGHT_START_HOUR := 22, NIGHT_END_HOUR := 6\<rparr>) 12
   \<and> is_night_time (default_config\<lparr>NIGHT_START_HOUR := 22, NIGHT_END_HOUR := 6\<rparr>) 0
   \<and> is_night_time default_config 3 \<and> \<not> is_night_time default_config 7"
  using is_night_time_window [of "default_config\<lparr>NIGHT_START_HOUR := 22, NIGHT_END_HOUR := 6\<rparr>" 0]
        is_night_time_window [of default_config 3]
        is_night_time_window [of default_config 7]
  by (simp add: default_config_def)

text \<open>
  Claim C10. When the configured start hour equals the end hour, \<open>is_night_time\<close> is
  true at every hour: the window is the whole day, not the empty interval.
\<close>

theorem is_night_time_equal_hours:
  "NIGHT_START_HOUR cfg = NIGHT_END_HOUR cfg \<Longrightarrow> is_night_time cfg h"
  by (auto simp: is_night_time_def Let_def)

theorem is_night_time_equal_hours_witness:
  "NIGHT_START_HOUR (default_config\<lparr>NIGHT_START_HOUR := 5, NIGHT_END_HOUR := 5\<rparr>)
     = NIGHT_END_HOUR (default_config\<lparr>NIGHT_START_HOUR := 5, NIGHT_END_HOUR := 5\<rparr>)
   \<and> is_night_time (default_config\<lparr>NIGHT_START_HOUR := 5, NIGHT_END_HOUR := 5\<rparr>) 12"
  using is_night_time_equal_hours
          [of "default_config\<lparr>NIGHT_START_HOUR := 5, NIGHT_END_HOUR := 5\<rparr>" 12]
  by simp

section \<open>Type selection\<close>

text \<open>
  The instance the specification gives for the priority of \<open>ANGEL\<close> has counters
  cursing 0, meme 60, code 60, caps 0. Their sum is 120, below the 200 that \<open>ANGEL\<close>
  needs, and the source answers \<open>CYBER_BOT\<close> for it.
\<close>

theorem determine_pet_type_instance_counterexample:
  "cursing_count ((new_chat 1 0)\<lparr>cursing_count := 0, meme_count := 60, code_count := 60, caps_count := 0\<rparr>)
   + meme_count ((new_chat 1 0)\<lparr>cursing_count := 0, meme_count := 60, code_count := 60, caps_count := 0\<rparr>)
   + code_count ((new_chat 1 0)\<lparr>cursing_count := 0, meme_count := 60, code_count := 60, caps_count := 0\<rparr>)
   + caps_count ((new_chat 1 0)\<lparr>cursing_count := 0, meme_count := 60, code_count := 60, caps_count := 0\<rparr>)
     = 120
   \<and> determine_pet_type
       ((new_chat 1 0)\<lparr>cursing_count := 0, meme_count := 60, code_count := 60, caps_count := 0\<rparr>)
     = CYBER_BOT
   \<and> determine_pet_type
       ((new_chat 1 0)\<lparr>cursing_count := 0, meme_count := 60, code_count := 60, caps_count := 0\<rparr>)
     \<noteq> ANGEL"
  by (simp add: determine_pet_type_def new_chat_def)

text \<open>
  Claim C5, as amended. \<open>determine_pet_type\<close> is the first match of the rules in the
  order ANGEL, CYBER_BOT, MEME_CAT, TROLL, GOBLIN, with NORMAL as the fallback. Every
  pet with no cursing and a counter total of at least 200 is an ANGEL, also when its
  code or meme counter is 50 or more: cursing 0, meme 100, code 100, caps 0 gives
  ANGEL. The counters cursing 0, meme 60, code 60, caps 0 total 120 and give CYBER_BOT.
\<close>

theorem determine_pet_type_priority:
  "determine_pet_type chat = determineType_spec chat
   \<and> (cursing_count chat = 0
        \<and> cursing_count chat + meme_count chat + code_count chat + caps_count chat \<ge> 200
      \<longrightarrow> determine_pet_type chat = ANGEL)
   \<and> determine_pet_type
       (chat\<lparr>cursing_count := 0, meme_count := 100, code_count := 100, caps_count := 0\<rparr>) = ANGEL
   \<and> determine_pet_type
       (chat\<lparr>cursing_count := 0, meme_count := 60, code_count := 60, caps_count := 0\<rparr>) = CYBER_BOT"
  by (simp add: determine_pet_type_def determineType_spec_def determineType_spec_rules_def Let_def)

theorem determine_pet_type_priority_witness:
  "cursing_count ((new_chat 1 0)\<lparr>meme_count := 120, code_count := 80\<rparr>) = 0
   \<and> cursing_count ((new_chat 1 0)\<lparr>meme_count := 120, code_count := 80\<rparr>)
       + meme_count ((new_chat 1 0)\<lparr>meme_count := 120, code_count := 80\<rparr>)
       + code_count ((new_chat 1 0)\<lparr>meme_count := 120, code_count := 80\<rparr>)
       + caps_count ((new_chat 1 0)\<lparr>meme_count := 120, code_count := 80\<rparr>) \<ge> 200
   \<and> determine_pet_type ((new_chat 1 0)\<lparr>meme_count := 120, code_count := 80\<rparr>) = ANGEL"
  using determine_pet_type_priority
          [of "(new_chat 1 0)\<lparr>meme_count := 120, code_count := 80\<rparr>",
           THEN conjunct2, THEN conjunct1]
  by (simp add: new_chat_def)

section \<open>Evolution\<close>

lemma get_next_stage_simps:
  "get_next_stage EGG = Some BABY"
  "get_next_stage BABY = Some TEEN"
  "get_next_stage TEEN = Some ADULT"
  "get_next_stage ADULT = Some ANCIENT"
  "get_next_stage ANCIENT = None"
  by (simp_all add: get_next_stage_def stage_order_def)

lemma check_and_evolve_dead:
  "\<not> is_alive chat \<Longrightarrow> check_and_evolve chat w = (w, (False, None, None))"
  by (simp add: check_and_evolve_def)

lemma check_and_evolve_ancient:
  "pet_stage chat = ANCIENT \<Longrightarrow> check_and_evolve chat w = (w, (False, None, None))"
  by (simp add: check_and_evolve_def get_next_stage_simps)

lemma check_and_evolve_below:
  "get_next_stage (pet_stage chat) = Some s \<Longrightarrow> xp chat < STAGE_THRESHOLDS s \<Longrightarrow>
   check_and_evolve chat w = (w, (False, None, None))"
  by (simp add: check_and_evolve_def)

lemma check_and_evolve_fires:
  "is_alive chat \<Longrightarrow> get_next_stage (pet_stage chat) = Some s \<Longrightarrow> STAGE_THRESHOLDS s \<le> xp chat \<Longrightarrow>
   check_and_evolve chat w =
     (create_event EVOLUTION None
        (on_pet (evolve s (if s = TEEN then determine_pet_type chat else pet_type chat)) w),
      (True, Some s, Some (if s = TEEN then determine_pet_type chat else pet_type chat)))"
  by (simp add: check_and_evolve_def Let_def)


text \<open>
  Claim C6. \<open>check_and_evolve\<close> returns \<open>(False, None, None)\<close> and leaves the
  database as it is when the pet is dead, when the stage is ANCIENT, or when the XP is
  below the threshold of the next stage (BABY 100, TEEN 500, ADULT 1500, ANCIENT 5000),
  in particular one below it. With the XP equal to the threshold, the pet moves to the
  next stage in the order EGG, BABY, TEEN, ADULT, ANCIENT, one EVOLUTION event is
  logged and \<open>(True, stage, type)\<close> is returned; the type is computed by
  \<open>determine_pet_type\<close> when the new stage is TEEN and is the pet's old type
  otherwise.
\<close>

theorem check_and_evolve_thresholds:
  "(\<not> is_alive chat \<longrightarrow> check_and_evolve chat w = (w, (False, None, None)))
   \<and> (pet_stage chat = ANCIENT \<longrightarrow> check_and_evolve chat w = (w, (False, None, None)))
   \<and> (get_next_stage (pet_stage chat) = Some s \<and> xp chat < STAGE_THRESHOLDS s \<longrightarrow>
        check_and_evolve chat w = (w, (False, None, None)))
   \<and> (get_next_stage (pet_stage chat) = Some s \<and> xp chat = STAGE_THRESHOLDS s - 1 \<longrightarrow>
        check_and_evolve chat w = (w, (False, None, None)))
   \<and> STAGE_THRESHOLDS BABY = 100 \<and> STAGE_THRESHOLDS TEEN = 500
   \<and> STAGE_THRESHOLDS ADULT = 1500 \<and> STAGE_THRESHOLDS ANCIENT = 5000
   \<and> get_next_stage EGG = Some BABY \<and> get_next_stage BABY = Some TEEN
   \<and> get_next_stage TEEN = Some ADULT \<and> get_next_stage ADULT = Some ANCIENT
   \<and> get_next_stage ANCIENT = None
   \<and> (is_alive chat \<and> pet w = Some chat \<and> get_next_stage (pet_stage chat) = Some s
        \<and> xp chat = STAGE_THRESHOLDS s \<longrightarrow>
        (let new_type = (if s = TEEN then determine_pet_type chat else pet_type chat)
         in check_and_evolve chat w =
              (\<lparr>pet = Some (chat\<lparr>pet_stage := s, pet_type := new_type\<rparr>),
                users = users w,
                events = events w @ [\<lparr>event_type = EVOLUTION, user_id = None\<rparr>]\<rparr>,
               (True, Some s, Some new_type))))
   \<and> (is_alive chat \<and> pet w = Some chat \<and> get_next_stage (pet_stage chat) = Some s
        \<and> xp chat = STAGE_THRESHOLDS s \<and> s \<noteq> TEEN \<longrightarrow>
        map_option pet_type (pet (fst (check_and_evolve chat w))) = Some (pet_type chat))"
  apply (intro conjI impI)
  apply (simp_all add: check_and_evolve_dead check_and_evolve_ancient check_and_evolve_below
           get_next_stage_simps)
  apply (simp_all add: check_and_evolve_fires Let_def)
  apply (simp_all add: create_event_def on_pet_def evolve_def)
  done

theorem check_and_evolve_thresholds_witness:
  "check_and_evolve ((new_chat 1 0)\<lparr>pet_stage := BABY, xp := 499, code_count := 70\<rparr>)
       \<lparr>pet = Some ((new_chat 1 0)\<lparr>pet_stage := BABY, xp := 499, code_count := 70\<rparr>),
        users = Map.empty, events = []\<rparr>
     = (\<lparr>pet = Some ((new_chat 1 0)\<lparr>pet_stage := BABY, xp := 499, code_count := 70\<rparr>),
         users = Map.empty, events = []\<rparr>, (False, None, None))
   \<and> check_and_evolve ((new_chat 1 0)\<lparr>pet_stage := BABY, xp := 500, code_count := 70\<rparr>)
       \<lparr>pet = Some ((new_chat 1 0)\<lparr>pet_stage := BABY, xp := 500, code_count := 70\<rparr>),
        users = Map.empty, events = []\<rparr>
     = (\<lparr>pet = Some ((new_chat 1 0)\<lparr>pet_stage := TEEN, pet_type := CYBER_BOT, xp := 500,
                                     code_count := 70\<rparr>),
         users = Map.empty, events = [\<lparr>event_type = EVOLUTION, user_id = None\<rparr>]\<rparr>,
        (True, Some TEEN, Some CYBER_BOT))
   \<and> check_and_evolve
       ((new_chat 1 0)\<lparr>pet_stage := TEEN, pet_type := GOBLIN, xp := 1500, code_count := 70\<rparr>)
       \<lparr>pet = Some ((new_chat 1 0)\<lparr>pet_stage := TEEN, pet_type := GOBLIN, xp := 1500,
                                    code_count := 70\<rparr>),
        users = Map.empty, events = []\<rparr>
     = (\<lparr>pet = Some ((new_chat 1 0)\<lparr>pet_stage := ADULT, pet_type := GOBLIN, xp := 1500,
                                     code_count := 70\<rparr>),
         users = Map.empty, events = [\<lparr>event_type = EVOLUTION, user_id = None\<rparr>]\<rparr>,
        (True, Some ADULT, Some GOBLIN))"
  using check_and_evolve_thresholds
          [where chat = "(new_chat 1 0)\<lparr>pet_stage := BABY, xp := 499, code_count := 70\<rparr>"
             and w = "\<lparr>pet = Some ((new_chat 1 0)\<lparr>pet_stage := BABY, xp := 499, code_count := 70\<rparr>),
                       users = Map.empty, events = []\<rparr>"
             and s = TEEN]
        check_and_evolve_thresholds
          [where chat = "(new_chat 1 0)\<lparr>pet_stage := BABY, xp := 500, code_count := 70\<rparr>"
             and w = "\<lparr>pet = Some ((new_chat 1 0)\<lparr>pet_stage := BABY, xp := 500, code_count := 70\<rparr>),
                       users = Map.empty, events = []\<rparr>"
             and s = TEEN]
        check_and_evolve_thresholds
          [where chat = "(new_chat 1 0)\<lparr>pet_stage := TEEN, pet_type := GOBLIN, xp := 1500,
                                       code_count := 70\<rparr>"
             and w = "\<lparr>pet = Some ((new_chat 1 0)\<lparr>pet_stage := TEEN, pet_type := GOBLIN,
                                              xp := 1500, code_count := 70\<rparr>),
                       users = Map.empty, events = []\<rparr>"
             and s = ADULT]
  by (simp add: new_chat_def determine_pet_type_def Let_def)

section \<open>The decay tick\<close>

lemma update_stats_all_in_range:
  "0 \<le> a \<Longrightarrow> a \<le> 100 \<Longrightarrow> 0 \<le> b \<Longrightarrow> b \<le> 100 \<Longrightarrow> 0 \<le> c \<Longrightarrow> c \<le> 100 \<Longrightarrow>
   0 \<le> d \<Longrightarrow> d \<le> 100 \<Longrightarrow>
   update_stats now (Some a) (Some b) (Some c) (Some d) chat =
     chat\<lparr>hunger := a, mood := b, energy := c, health := d, last_interaction := Some now\<rparr>"
  by (simp add: update_stats_def clamp_stat_id)

lemma tick_stats_alive_unfold:
  "is_alive chat \<Longrightarrow>
   nh = max 0 (hunger chat - STAT_DECAY_PER_TICK cfg) \<Longrightarrow>
   nm = max 0 (mood chat - STAT_DECAY_PER_TICK cfg) \<Longrightarrow>
   ne = max 0 (energy chat - STAT_DECAY_PER_TICK cfg) \<Longrightarrow>
   pen = (if nh < 20 then 10 else 0) + (if nm < 20 then 5 else 0) + (if ne < 20 then 5 else 0) \<Longrightarrow>
   tick_stats cfg now chat w =
     (let new_health = max 0 (health chat - pen);
          w1 = on_pet (update_stats now (Some nh) (Some nm) (Some ne) (Some new_health)) w
      in if new_health \<le> 0
         then (create_event DEATH None (on_pet (kill_pet now) w1), (False, True))
         else (on_pet (update_last_tick now)
                 (if new_health < CRITICAL_HEALTH_THRESHOLD cfg
                  then create_event CRITICAL_HEALTH None w1 else w1),
               (True, new_health < CRITICAL_HEALTH_THRESHOLD cfg)))"
  by (simp add: tick_stats_def Let_def)

lemma tick_stats_dies:
  assumes "is_alive chat" "pet w = Some chat" "vitals_ok chat" "0 \<le> STAT_DECAY_PER_TICK cfg"
    and nh: "nh = max 0 (hunger chat - STAT_DECAY_PER_TICK cfg)"
    and nm: "nm = max 0 (mood chat - STAT_DECAY_PER_TICK cfg)"
    and ne: "ne = max 0 (energy chat - STAT_DECAY_PER_TICK cfg)"
    and pen: "pen = (if nh < 20 then 10 else 0) + (if nm < 20 then 5 else 0)
                    + (if ne < 20 then 5 else 0)"
    and dead: "health chat - pen \<le> 0"
  shows "tick_stats cfg now chat w =
           (\<lparr>pet = Some (chat\<lparr>hunger := nh, mood := nm, energy := ne, health := 0,
                              last_interaction := Some now,
                              is_alive := False, death_at := Some now\<rparr>),
             users = users w,
             events = events w @ [\<lparr>event_type = DEATH, user_id = None\<rparr>]\<rparr>,
            (False, True))"
proof -
  have r: "0 \<le> nh" "nh \<le> 100" "0 \<le> nm" "nm \<le> 100" "0 \<le> ne" "ne \<le> 100"
    using assms(3,4) by (auto simp: nh nm ne vitals_ok_def)
  have h0: "max 0 (health chat - pen) = 0"
    using dead by simp
  show ?thesis
    using assms(2) r
    by (simp add: tick_stats_alive_unfold [OF assms(1) nh nm ne pen] h0
          update_stats_all_in_range on_pet_def create_event_def kill_pet_def)
qed

lemma tick_stats_survives:
  assumes "is_alive chat" "pet w = Some chat" "vitals_ok chat" "0 \<le> STAT_DECAY_PER_TICK cfg"
    and nh: "nh = max 0 (hunger chat - STAT_DECAY_PER_TICK cfg)"
    and nm: "nm = max 0 (mood chat - STAT_DECAY_PER_TICK cfg)"
    and ne: "ne = max 0 (energy chat - STAT_DECAY_PER_TICK cfg)"
    and pen: "pen = (if nh < 20 then 10 else 0) + (if nm < 20 then 5 else 0)
                    + (if ne < 20 then 5 else 0)"
    and alive: "0 < health chat - pen"
  shows "tick_stats cfg now chat w =
           (\<lparr>pet = Some (chat\<lparr>hunger := nh, mood := nm, energy := ne, health := health chat - pen,
                              last_interaction := Some now, last_tick := now\<rparr>),
             users = users w,
             events = events w @
               (if health chat - pen < CRITICAL_HEALTH_THRESHOLD cfg
                then [\<lparr>event_type = CRITICAL_HEALTH, user_id = None\<rparr>] else [])\<rparr>,
            (True, health chat - pen < CRITICAL_HEALTH_THRESHOLD cfg))"
proof -
  have r: "0 \<le> nh" "nh \<le> 100" "0 \<le> nm" "nm \<le> 100" "0 \<le> ne" "ne \<le> 100"
    using assms(3,4) by (auto simp: nh nm ne vitals_ok_def)
  have "health chat \<le> 100" using assms(3) by (simp add: vitals_ok_def)
  moreover have "0 \<le> pen" by (simp add: pen)
  ultimately have hr: "health chat - pen \<le> 100" "0 \<le> health chat - pen"
    using alive by simp_all
  have h0: "max 0 (health chat - pen) = health chat - pen"
    using alive by simp
  have nd: "\<not> health chat - pen \<le> 0"
    using alive by simp
  show ?thesis
    using assms(2) r hr nd
    by (simp add: tick_stats_alive_unfold [OF assms(1) nh nm ne pen] h0
          update_stats_all_in_range on_pet_def create_event_def update_last_tick_def)
qed

lemma check_sleep_status_same:
  "is_sleeping chat = is_night_time cfg hr \<Longrightarrow> check_sleep_status cfg now hr chat w = w"
  by (simp add: check_sleep_status_def Let_def)

lemma tick_pet_dead_no_evolution:
  "tick_stats cfg now (case pet (check_sleep_status cfg now hr chat w) of Some c \<Rightarrow> c | None \<Rightarrow> chat)
      (check_sleep_status cfg now hr chat w) = (w2, (False, cr)) \<Longrightarrow>
   tick_pet cfg now hr chat w = (w2, [DeathNotice])"
  by (simp add: tick_pet_def Let_def)

lemma tick_all_pets_dies:
  assumes "is_alive chat" "pet w = Some chat" "is_sleeping chat = is_night_time cfg hr"
    and "tick_stats cfg now chat w = (w2, (False, cr))"
  shows "tick_all_pets cfg now hr w = (w2, [DeathNotice])"
  using assms
  by (simp add: tick_all_pets_def tick_pet_dead_no_evolution check_sleep_status_same)

lemma tick_stats_fresh:
  "tick_stats default_config now (new_chat cid t0)
       \<lparr>pet = Some (new_chat cid t0), users = us, events = es\<rparr> =
     (\<lparr>pet = Some ((new_chat cid t0)\<lparr>hunger := 95, mood := 95, energy := 95, health := 100,
                                     last_interaction := Some now, last_tick := now\<rparr>),
       users = us, events = es\<rparr>, (True, False))"
  by (simp add: tick_stats_def Let_def new_chat_def default_config_def on_pet_def
        update_stats_def clamp_stat_def update_last_tick_def)


text \<open>
  Claim C4. For an alive pet with vitals in range and a non-negative decay amount
  (5 by default), \<open>tick_stats\<close> writes hunger, mood and energy lowered by the decay
  and clamped at 0, and lowers health by the sum of 10 if the new hunger is below 20,
  5 if the new mood is below 20 and 5 if the new energy is below 20. If that leaves
  health at 0 or below, the pet is stored dead with health 0 and a death time, a DEATH
  event is logged, \<open>(False, True)\<close> is returned, and the scheduler pass ends with
  the death notice and without an evolution check. Otherwise the pet stays alive and
  the result says whether health is below the critical threshold. A fresh pet ends one
  default tick at hunger 95, mood 95, energy 95, health 100, alive and not critical.
\<close>

theorem tick_stats_decay:
  "(is_alive chat \<and> pet w = Some chat \<and> vitals_ok chat \<and> 0 \<le> STAT_DECAY_PER_TICK cfg \<longrightarrow>
     (let nh = max 0 (hunger chat - STAT_DECAY_PER_TICK cfg);
          nm = max 0 (mood chat - STAT_DECAY_PER_TICK cfg);
          ne = max 0 (energy chat - STAT_DECAY_PER_TICK cfg);
          pen = (if nh < 20 then 10 else 0) + (if nm < 20 then 5 else 0)
                + (if ne < 20 then 5 else 0);
          dead = \<lparr>pet = Some (chat\<lparr>hunger := nh, mood := nm, energy := ne, health := 0,
                                   last_interaction := Some now,
                                   is_alive := False, death_at := Some now\<rparr>),
                  users = users w,
                  events = events w @ [\<lparr>event_type = DEATH, user_id = None\<rparr>]\<rparr>
      in (health chat - pen \<le> 0 \<longrightarrow>
            tick_stats cfg now chat w = (dead, (False, True))
            \<and> (is_sleeping chat = is_night_time cfg hr \<longrightarrow>
                 tick_all_pets cfg now hr w = (dead, [DeathNotice])))
         \<and> (0 < health chat - pen \<longrightarrow>
            tick_stats cfg now chat w =
              (\<lparr>pet = Some (chat\<lparr>hunger := nh, mood := nm, energy := ne,
                                 health := health chat - pen,
                                 last_interaction := Some now, last_tick := now\<rparr>),
                users = users w,
                events = events w @
                  (if health chat - pen < CRITICAL_HEALTH_THRESHOLD cfg
                   then [\<lparr>event_type = CRITICAL_HEALTH, user_id = None\<rparr>] else [])\<rparr>,
               (True, health chat - pen < CRITICAL_HEALTH_THRESHOLD cfg)))))
   \<and> (tick_stats cfg now
         (case pet (check_sleep_status cfg now hr chat w) of Some c \<Rightarrow> c | None \<Rightarrow> chat)
         (check_sleep_status cfg now hr chat w) = (w2, (False, cr)) \<longrightarrow>
       tick_pet cfg now hr chat w = (w2, [DeathNotice]))
   \<and> STAT_DECAY_PER_TICK default_config = 5
   \<and> tick_stats default_config now (new_chat cid t0)
         \<lparr>pet = Some (new_chat cid t0), users = us, events = es\<rparr> =
       (\<lparr>pet = Some ((new_chat cid t0)\<lparr>hunger := 95, mood := 95, energy := 95, health := 100,
                                       last_interaction := Some now, last_tick := now\<rparr>),
         users = us, events = es\<rparr>, (True, False))"
  apply (intro conjI impI)
  subgoal
    unfolding Let_def
    apply (elim conjE)
    apply (intro conjI impI)
    subgoal by (rule tick_stats_dies [OF _ _ _ _ refl refl refl refl]; assumption)
    subgoal by (rule tick_all_pets_dies [where cr = True],
                (assumption | rule tick_stats_dies [OF _ _ _ _ refl refl refl refl])+)
    subgoal by (rule tick_stats_survives [OF _ _ _ _ refl refl refl refl]; assumption)
    done
  subgoal by (rule tick_pet_dead_no_evolution)
  subgoal by (simp add: default_config_def)
  subgoal by (rule tick_stats_fresh)
  done

theorem tick_stats_decay_witness:
  "tick_all_pets default_config 9 12
     \<lparr>pet = Some ((new_chat 1 0)\<lparr>hunger := 10, health := 5, xp := 100\<rparr>),
      users = Map.empty, events = []\<rparr>
   = (\<lparr>pet = Some ((new_chat 1 0)\<lparr>hunger := 5, mood := 95, energy := 95, health := 0, xp := 100,
                                   last_interaction := Some 9,
                                   is_alive := False, death_at := Some 9\<rparr>),
       users = Map.empty,
       events = [\<lparr>event_type = DEATH, user_id = None\<rparr>]\<rparr>, [DeathNotice])
   \<and> tick_stats default_config 9 ((new_chat 1 0)\<lparr>hunger := 18, mood := 24, health := 40\<rparr>)
       \<lparr>pet = Some ((new_chat 1 0)\<lparr>hunger := 18, mood := 24, health := 40\<rparr>),
        users = Map.empty, events = []\<rparr>
   = (\<lparr>pet = Some ((new_chat 1 0)\<lparr>hunger := 13, mood := 19, energy := 95, health := 25,
                                   last_interaction := Some 9, last_tick := 9\<rparr>),
       users = Map.empty, events = []\<rparr>, (True, False))"
  using tick_stats_decay
          [where chat = "(new_chat 1 0)\<lparr>hunger := 10, health := 5, xp := 100\<rparr>"
             and w = "\<lparr>pet = Some ((new_chat 1 0)\<lparr>hunger := 10, health := 5, xp := 100\<rparr>),
                       users = Map.empty, events = []\<rparr>"
             and cfg = default_config and now = 9 and hr = 12, THEN conjunct1]
        tick_stats_decay
          [where chat = "(new_chat 1 0)\<lparr>hunger := 18, mood := 24, health := 40\<rparr>"
             and w = "\<lparr>pet = Some ((new_chat 1 0)\<lparr>hunger := 18, mood := 24, health := 40\<rparr>),
                       users = Map.empty, events = []\<rparr>"
             and cfg = default_config and now = 9 and hr = 12, THEN conjunct1]
  by (simp add: new_chat_def default_config_def vitals_ok_def is_night_time_def Let_def)

section \<open>Dead pets and revival\<close>

lemma feed_dead: "\<not> is_alive chat \<Longrightarrow> feed cfg now chat uid w = (w, Failure PetDead)"
  by (simp add: feed_def)

lemma play_dead: "\<not> is_alive chat \<Longrightarrow> play cfg now chat uid w = (w, Failure PetDead)"
  by (simp add: play_def)

lemma cmd_gamble_dead:
  "\<not> is_alive chat \<Longrightarrow> pet w = Some chat \<Longrightarrow> cmd_gamble False w = (w, PetIsDead)"
  by (simp add: cmd_gamble_def)

lemma callback_gamble_play_dead:
  "\<not> is_alive chat \<Longrightarrow> pet w = Some chat \<Longrightarrow>
   callback_gamble_play n uid now w = (w, PetIsDead)"
  by (simp add: callback_gamble_play_def)

lemma cmd_feed_dead_awake:
  "\<not> is_alive chat \<Longrightarrow> \<not> is_sleeping chat \<Longrightarrow> pet w = Some chat \<Longrightarrow>
   cmd_feed cfg False uid now w = (w, ActionReply (Failure PetDead))"
  by (simp add: cmd_feed_def feed_dead)

lemma cmd_play_dead_awake:
  "\<not> is_alive chat \<Longrightarrow> \<not> is_sleeping chat \<Longrightarrow> pet w = Some chat \<Longrightarrow>
   cmd_play cfg False uid now w = (w, ActionReply (Failure PetDead))"
  by (simp add: cmd_play_def play_dead)

lemma cmd_start_dead:
  "\<not> is_alive chat \<Longrightarrow> pet w = Some chat \<Longrightarrow>
   cmd_start False cid now w =
     (\<lparr>pet = Some (revive_pet now chat), users = users w,
       events = events w @ [\<lparr>event_type = BIRTH, user_id = None\<rparr>]\<rparr>, Born)"
  by (simp add: cmd_start_def get_or_create_chat_def Let_def on_pet_def create_event_def)


text \<open>
  What holds on the source for a dead pet: \<open>PetLogic.feed\<close> and
  \<open>PetLogic.play\<close> return the failure result with the reason that the pet is dead,
  and the gamble command and the gamble callback answer that the pet is dead; each
  returns normally and leaves the whole database as it was. The commands \<open>/feed\<close>
  and \<open>/play\<close> pass that failure on when the dead pet is not flagged as sleeping.
  Revival (\<open>revive_pet\<close>, run by \<open>/start\<close> on a dead pet) sets all four vitals
  to 100, XP 0, level 1, stage EGG, type NORMAL, the four behaviour counters to 0,
  alive, and clears the death time.
\<close>

lemma dead_pet_inner_rejection_and_revival:
  "(\<not> is_alive chat \<longrightarrow>
      feed cfg now chat uid w = (w, Failure PetDead)
      \<and> play cfg now chat uid w = (w, Failure PetDead))
   \<and> (\<not> is_alive chat \<and> pet w = Some chat \<longrightarrow>
      cmd_gamble False w = (w, PetIsDead)
      \<and> callback_gamble_play n uid now w = (w, PetIsDead)
      \<and> cmd_start False cid now w =
          (\<lparr>pet = Some (revive_pet now chat), users = users w,
            events = events w @ [\<lparr>event_type = BIRTH, user_id = None\<rparr>]\<rparr>, Born))
   \<and> (\<not> is_alive chat \<and> \<not> is_sleeping chat \<and> pet w = Some chat \<longrightarrow>
      cmd_feed cfg False uid now w = (w, ActionReply (Failure PetDead))
      \<and> cmd_play cfg False uid now w = (w, ActionReply (Failure PetDead)))
   \<and> hunger (revive_pet now chat) = 100 \<and> mood (revive_pet now chat) = 100
   \<and> energy (revive_pet now chat) = 100 \<and> health (revive_pet now chat) = 100
   \<and> xp (revive_pet now chat) = 0 \<and> level (revive_pet now chat) = 1
   \<and> pet_stage (revive_pet now chat) = EGG \<and> pet_type (revive_pet now chat) = NORMAL
   \<and> cursing_count (revive_pet now chat) = 0 \<and> meme_count (revive_pet now chat) = 0
   \<and> code_count (revive_pet now chat) = 0 \<and> caps_count (revive_pet now chat) = 0
   \<and> is_alive (revive_pet now chat) \<and> death_at (revive_pet now chat) = None"
  apply (intro conjI impI)
  apply (simp_all add: feed_dead play_dead revive_pet_def)
  subgoal by (elim conjE, rule cmd_gamble_dead)
  subgoal by (elim conjE, rule callback_gamble_play_dead)
  subgoal by (elim conjE, simp add: cmd_start_dead revive_pet_def)
  subgoal by (elim conjE, rule cmd_feed_dead_awake)
  subgoal by (elim conjE, rule cmd_play_dead_awake)
  done

text \<open>
  Claim C9 says that while a pet is dead, feed, play and gamble each fail with the
  reason that the pet is dead and leave all vitals unchanged. The source on a pet that
  dies during the night: the scheduler pass at hour 3 first flags the pet as sleeping
  and then kills it, and no later pass visits a dead row, so the flag stays set. On
  that dead pet \<open>/feed\<close> and \<open>/play\<close> run \<open>disturb_at_night\<close>, which does
  not look at \<open>is_alive\<close>, before \<open>PetLogic.feed\<close> or \<open>PetLogic.play\<close> is
  reached: mood drops from 95 to 75, a NIGHT_DISTURB event is logged, the actor's
  disturb counter is raised, and the answer is the disturbance message, not that the
  pet is dead.
\<close>

theorem feed_on_pet_that_died_asleep:
  "tick_all_pets default_config 9 3
     \<lparr>pet = Some ((new_chat 1 0)\<lparr>hunger := 10, health := 5\<rparr>),
      users = Map.empty, events = []\<rparr>
   = (\<lparr>pet = Some ((new_chat 1 0)\<lparr>hunger := 5, mood := 95, energy := 95, health := 0,
                                   is_alive := False, is_sleeping := True,
                                   last_interaction := Some 9, death_at := Some 9\<rparr>),
       users = Map.empty,
       events = [\<lparr>event_type = DEATH, user_id = None\<rparr>]\<rparr>, [DeathNotice])
   \<and> cmd_feed default_config False 7 10
       \<lparr>pet = Some ((new_chat 1 0)\<lparr>hunger := 5, mood := 95, energy := 95, health := 0,
                                   is_alive := False, is_sleeping := True,
                                   last_interaction := Some 9, death_at := Some 9\<rparr>),
        users = Map.empty,
        events = [\<lparr>event_type = DEATH, user_id = None\<rparr>]\<rparr>
   = (\<lparr>pet = Some ((new_chat 1 0)\<lparr>hunger := 5, mood := 75, energy := 95, health := 0,
                                   is_alive := False, is_sleeping := True,
                                   last_interaction := Some 10, death_at := Some 9\<rparr>),
       users = [7 \<mapsto> new_user\<lparr>night_disturb_count := 1\<rparr>],
       events = [\<lparr>event_type = DEATH, user_id = None\<rparr>,
                 \<lparr>event_type = NIGHT_DISTURB, user_id = Some 7\<rparr>]\<rparr>,
      DisturbedReply 0)
   \<and> cmd_play default_config False 7 10
       \<lparr>pet = Some ((new_chat 1 0)\<lparr>hunger := 5, mood := 95, energy := 95, health := 0,
                                   is_alive := False, is_sleeping := True,
                                   last_interaction := Some 9, death_at := Some 9\<rparr>),
        users = Map.empty,
        events = [\<lparr>event_type = DEATH, user_id = None\<rparr>]\<rparr>
   = (\<lparr>pet = Some ((new_chat 1 0)\<lparr>hunger := 5, mood := 75, energy := 95, health := 0,
                                   is_alive := False, is_sleeping := True,
                                   last_interaction := Some 10, death_at := Some 9\<rparr>),
       users = [7 \<mapsto> new_user\<lparr>night_disturb_count := 1\<rparr>],
       events = [\<lparr>event_type = DEATH, user_id = None\<rparr>,
                 \<lparr>event_type = NIGHT_DISTURB, user_id = Some 7\<rparr>]\<rparr>,
      DisturbedReply 0)"
  apply (intro conjI)
  subgoal
    by (simp add: tick_all_pets_def tick_pet_def check_sleep_status_def is_night_time_def
          tick_stats_def default_config_def new_chat_def update_stats_def clamp_stat_def
          kill_pet_def on_pet_def create_event_def Let_def)
  subgoal
    by (simp add: cmd_feed_def disturb_at_night_def new_chat_def update_stats_def clamp_stat_def
          on_pet_def create_event_def increment_stat_def valid_stats_def get_or_create_def
          setattr_user_def new_user_def Let_def)
  subgoal
    by (simp add: cmd_play_def disturb_at_night_def new_chat_def update_stats_def clamp_stat_def
          on_pet_def create_event_def increment_stat_def valid_stats_def get_or_create_def
          setattr_user_def new_user_def Let_def)
  done

section \<open>Random events\<close>

lemma choice_manager_events:
  "choice n manager_events =
     (if n mod 3 = 0 then FindBoxEvent else if n mod 3 = 1 then VisitorEvent else WeatherEvent)"
proof -
  have "n mod 3 = 0 \<or> n mod 3 = 1 \<or> n mod 3 = 2" by presburger
  then show ?thesis
    by (auto simp: choice_def manager_events_def)
qed

lemma trigger_random_event_blocked:
  "\<not> is_alive chat \<or> is_sleeping chat \<Longrightarrow> trigger_random_event now roll n own k chat w = (w, None)"
  by (auto simp: trigger_random_event_def)

lemma trigger_random_event_fires_iff:
  "is_alive chat \<Longrightarrow> \<not> is_sleeping chat \<Longrightarrow>
   (snd (trigger_random_event now roll n own k chat w) \<noteq> None)
     = (roll \<le> 0.3 \<and> own \<le> probability (choice n manager_events))"
  by (auto simp: trigger_random_event_def Let_def split: prod.splits)

lemma trigger_random_event_none_unchanged:
  "snd (trigger_random_event now roll n own k chat w) = None \<Longrightarrow>
   fst (trigger_random_event now roll n own k chat w) = w"
  by (auto simp: trigger_random_event_def Let_def split: prod.splits if_splits)

lemma trigger_random_event_fires:
  "is_alive chat \<Longrightarrow> \<not> is_sleeping chat \<Longrightarrow> roll \<le> 0.3 \<Longrightarrow>
   own \<le> probability (choice n manager_events) \<Longrightarrow>
   trigger_random_event now roll n own k chat w =
     (fst (execute (choice n manager_events) now k chat w),
      Some (snd (execute (choice n manager_events) now k chat w)))"
  by (auto simp: trigger_random_event_def Let_def split: prod.splits)


text \<open>
  The gates of the source are \<open>random.random() > 0.3\<close> and
  \<open>random.random() > event.probability\<close>, so a draw equal to the bound passes.
  With the weather event chosen and its own roll exactly 0.25, which is not below the
  weather probability 0.25, the event fires and changes the mood.
\<close>

theorem trigger_random_event_gate_counterexample:
  "is_alive (new_chat 1 0) \<and> \<not> is_sleeping (new_chat 1 0)
   \<and> choice 2 manager_events = WeatherEvent
   \<and> \<not> ((0.25 :: real) < probability WeatherEvent)
   \<and> trigger_random_event 5 0.25 2 0.25 1 (new_chat 1 0)
        \<lparr>pet = Some (new_chat 1 0), users = Map.empty, events = []\<rparr>
     = (\<lparr>pet = Some ((new_chat 1 0)\<lparr>mood := 90, last_interaction := Some 5\<rparr>),
         users = Map.empty,
         events = [\<lparr>event_type = RANDOM_EVENT, user_id = None\<rparr>]\<rparr>,
        Some \<lparr>event = ''Weather Change'', drawn = 1\<rparr>)"
  by (simp add: trigger_random_event_def choice_def manager_events_def new_chat_def
        weather_execute_def weather_types_def update_stats_kw_def update_stats_def
        clamp_stat_def on_pet_def create_event_def Let_def)


text \<open>
  Claim C7, as amended. \<open>trigger_random_event\<close> returns \<open>None\<close> and leaves the
  database as it is for every dead or sleeping pet. Otherwise an event fires exactly
  when the first draw is at most 0.30 and the second draw is at most the probability of
  the kind selected by the choice draw among box, visitor and weather (0.20, 0.15,
  0.25); then the selected kind is executed. Whenever no event fires, the database is
  unchanged.
\<close>

theorem trigger_random_event_gates:
  "(\<not> is_alive chat \<or> is_sleeping chat \<longrightarrow>
      trigger_random_event now roll n own k chat w = (w, None))
   \<and> (is_alive chat \<and> \<not> is_sleeping chat \<longrightarrow>
      (snd (trigger_random_event now roll n own k chat w) \<noteq> None)
        = (roll \<le> 0.3 \<and> own \<le> probability (choice n manager_events)))
   \<and> (is_alive chat \<and> \<not> is_sleeping chat \<and> roll \<le> 0.3
        \<and> own \<le> probability (choice n manager_events) \<longrightarrow>
      trigger_random_event now roll n own k chat w =
        (fst (execute (choice n manager_events) now k chat w),
         Some (snd (execute (choice n manager_events) now k chat w))))
   \<and> (snd (trigger_random_event now roll n own k chat w) = None \<longrightarrow>
      fst (trigger_random_event now roll n own k chat w) = w)
   \<and> choice n manager_events =
       (if n mod 3 = 0 then FindBoxEvent else if n mod 3 = 1 then VisitorEvent else WeatherEvent)
   \<and> probability FindBoxEvent = 0.2 \<and> probability VisitorEvent = 0.15
   \<and> probability WeatherEvent = 0.25"
  apply (intro conjI impI)
  subgoal by (rule trigger_random_event_blocked)
  subgoal by (rule trigger_random_event_fires_iff) simp_all
  subgoal by (rule trigger_random_event_fires) simp_all
  subgoal by (rule trigger_random_event_none_unchanged)
  subgoal by (rule choice_manager_events)
  subgoal by simp
  subgoal by simp
  subgoal by simp
  done


theorem trigger_random_event_gates_witness:
  "trigger_random_event 5 0.1 4 0.15 0 (new_chat 1 0)
        \<lparr>pet = Some (new_chat 1 0), users = Map.empty, events = []\<rparr>
     = (fst (execute VisitorEvent 5 0 (new_chat 1 0)
               \<lparr>pet = Some (new_chat 1 0), users = Map.empty, events = []\<rparr>),
        Some (snd (execute VisitorEvent 5 0 (new_chat 1 0)
               \<lparr>pet = Some (new_chat 1 0), users = Map.empty, events = []\<rparr>)))
   \<and> trigger_random_event 5 0.1 4 0.2 0 (new_chat 1 0)
        \<lparr>pet = Some (new_chat 1 0), users = Map.empty, events = []\<rparr>
     = (\<lparr>pet = Some (new_chat 1 0), users = Map.empty, events = []\<rparr>, None)
   \<and> trigger_random_event 5 0.1 4 0.1 0 ((new_chat 1 0)\<lparr>is_sleeping := True\<rparr>)
        \<lparr>pet = Some ((new_chat 1 0)\<lparr>is_sleeping := True\<rparr>), users = Map.empty, events = []\<rparr>
     = (\<lparr>pet = Some ((new_chat 1 0)\<lparr>is_sleeping := True\<rparr>), users = Map.empty, events = []\<rparr>,
        None)"
proof -
  let ?w = "\<lparr>pet = Some (new_chat 1 0), users = Map.empty, events = []\<rparr>"
  have a: "is_alive (new_chat 1 0)" "\<not> is_sleeping (new_chat 1 0)"
    by (simp_all add: new_chat_def)
  note t1 = trigger_random_event_gates [where chat = "new_chat 1 0" and w = ?w and now = 5
              and roll = "0.1" and n = 4 and own = "0.15" and k = 0]
  note t2 = trigger_random_event_gates [where chat = "new_chat 1 0" and w = ?w and now = 5
              and roll = "0.1" and n = 4 and own = "0.2" and k = 0]
  note t3 = trigger_random_event_gates
              [where chat = "(new_chat 1 0)\<lparr>is_sleeping := True\<rparr>"
                 and w = "\<lparr>pet = Some ((new_chat 1 0)\<lparr>is_sleeping := True\<rparr>),
                           users = Map.empty, events = []\<rparr>"
                 and now = 5 and roll = "0.1" and n = 4 and own = "0.1" and k = 0, THEN conjunct1]
  have c: "choice 4 manager_events = VisitorEvent"
    using t1 by simp
  have p1: "trigger_random_event 5 0.1 4 0.15 0 (new_chat 1 0) ?w
     = (fst (execute VisitorEvent 5 0 (new_chat 1 0) ?w),
        Some (snd (execute VisitorEvent 5 0 (new_chat 1 0) ?w)))"
    using t1 [THEN conjunct2, THEN conjunct2, THEN conjunct1] a c by simp
  have "snd (trigger_random_event 5 0.1 4 0.2 0 (new_chat 1 0) ?w) = None"
    using t2 [THEN conjunct2, THEN conjunct1] a c by simp
  moreover from this have "fst (trigger_random_event 5 0.1 4 0.2 0 (new_chat 1 0) ?w) = ?w"
    using t2 [THEN conjunct2, THEN conjunct2, THEN conjunct2, THEN conjunct1] by blast
  ultimately have p2: "trigger_random_event 5 0.1 4 0.2 0 (new_chat 1 0) ?w = (?w, None)"
    by (simp add: prod_eq_iff)
  show ?thesis
    using p1 p2 t3 by simp
qed

section \<open>Night disturbance\<close>

text \<open>
  What holds on the source: a disturbance of a sleeping pet with vitals in range writes
  health \<open>max(0, health - 15)\<close> and mood \<open>max(0, mood - 20)\<close> and logs a
  NIGHT_DISTURB event; it never changes \<open>is_alive\<close> or \<open>death_at\<close>. The feed
  and play commands on a sleeping pet do exactly that and count the disturbance for
  the actor, without running the action.
\<close>

lemma disturb_at_night_sleeping:
  "is_sleeping chat \<Longrightarrow>
   disturb_at_night now chat uid w =
     (create_event NIGHT_DISTURB (Some uid)
        (on_pet (update_stats now None (Some (max 0 (mood chat - 20))) None
                   (Some (max 0 (health chat - 15)))) w),
      Disturbed (max 0 (health chat - 15)))"
  by (simp add: disturb_at_night_def Let_def)

lemma disturb_at_night_effect:
  assumes "is_sleeping chat" "pet w = Some chat" "vitals_ok chat"
  shows "fst (disturb_at_night now chat uid w) =
           \<lparr>pet = Some (chat\<lparr>mood := max 0 (mood chat - 20), health := max 0 (health chat - 15),
                              last_interaction := Some now\<rparr>),
             users = users w,
             events = events w @ [\<lparr>event_type = NIGHT_DISTURB, user_id = Some uid\<rparr>]\<rparr>"
proof -
  have "clamp_stat (max 0 (mood chat - 20)) = max 0 (mood chat - 20)"
       "clamp_stat (max 0 (health chat - 15)) = max 0 (health chat - 15)"
    using assms(3) by (simp_all add: vitals_ok_def clamp_stat_def)
  then show ?thesis
    using assms(1,2)
    by (simp add: disturb_at_night_sleeping update_stats_def on_pet_def create_event_def)
qed

lemma disturb_at_night_keeps_alive:
  "pet w = Some chat \<Longrightarrow>
   map_option is_alive (pet (fst (disturb_at_night now chat uid w))) = Some (is_alive chat)
   \<and> map_option death_at (pet (fst (disturb_at_night now chat uid w))) = Some (death_at chat)"
  by (simp add: disturb_at_night_def Let_def pet_create_event pet_on_pet update_stats_other)

lemma cmd_feed_sleeping:
  "pet w = Some chat \<Longrightarrow> is_sleeping chat \<Longrightarrow>
   cmd_feed cfg False uid now w =
     (increment_stat uid ''night_disturb_count'' 1 (fst (disturb_at_night now chat uid w)),
      DisturbedReply (max 0 (health chat - 15)))"
  by (simp add: cmd_feed_def disturb_at_night_sleeping)

lemma cmd_play_sleeping:
  "pet w = Some chat \<Longrightarrow> is_sleeping chat \<Longrightarrow>
   cmd_play cfg False uid now w =
     (increment_stat uid ''night_disturb_count'' 1 (fst (disturb_at_night now chat uid w)),
      DisturbedReply (max 0 (health chat - 15)))"
  by (simp add: cmd_play_def disturb_at_night_sleeping)

lemma increment_night_disturb_count:
  "users (increment_stat uid ''night_disturb_count'' 1 w) uid =
     Some ((case users w uid of None \<Rightarrow> new_user | Some u \<Rightarrow> u)
             \<lparr>night_disturb_count :=
                 night_disturb_count (case users w uid of None \<Rightarrow> new_user | Some u \<Rightarrow> u) + 1\<rparr>)"
  by (simp add: increment_stat_def valid_stats_def get_or_create_def setattr_user_def Let_def
        split: option.splits)

text \<open>
  Claim C1 says that a sleeping pet at health 8 that is disturbed ends at health 0 and
  dead. The source at that input: \<open>disturb_at_night\<close>, and \<open>/feed\<close> through it,
  store health 0 but leave the pet alive with no death time; only \<open>tick_stats\<close>
  calls \<open>kill_pet\<close>.
\<close>

theorem disturb_at_health_8_not_dead:
  "is_alive ((new_chat 1 0)\<lparr>health := 8, is_sleeping := True\<rparr>)
   \<and> is_sleeping ((new_chat 1 0)\<lparr>health := 8, is_sleeping := True\<rparr>)
   \<and> disturb_at_night 3 ((new_chat 1 0)\<lparr>health := 8, is_sleeping := True\<rparr>) 7
        \<lparr>pet = Some ((new_chat 1 0)\<lparr>health := 8, is_sleeping := True\<rparr>),
         users = Map.empty, events = []\<rparr>
     = (\<lparr>pet = Some ((new_chat 1 0)\<lparr>health := 0, mood := 80, is_sleeping := True,
                                     is_alive := True, death_at := None,
                                     last_interaction := Some 3\<rparr>),
         users = Map.empty,
         events = [\<lparr>event_type = NIGHT_DISTURB, user_id = Some 7\<rparr>]\<rparr>,
        Disturbed 0)
   \<and> map_option (\<lambda>c. (health c, is_alive c, death_at c))
        (pet (fst (cmd_feed default_config False 7 3
           \<lparr>pet = Some ((new_chat 1 0)\<lparr>health := 8, is_sleeping := True\<rparr>),
            users = Map.empty, events = []\<rparr>)))
     = Some (0, True, None)"
  by (simp add: cmd_feed_def disturb_at_night_def new_chat_def update_stats_def clamp_stat_def
        on_pet_def create_event_def Let_def pet_increment_stat)

text \<open>
  Claim C2 says that feed, play and gamble on an alive sleeping pet are all handled as
  a night disturbance. The source checks \<open>is_sleeping\<close> in \<open>cmd_feed\<close> and
  \<open>cmd_play\<close> but not in \<open>cmd_gamble\<close> or \<open>callback_gamble_play\<close>: on an
  alive sleeping pet the game is offered and a lost flip applies its normal effect
  (hunger 100 to 70) with health and mood untouched, no NIGHT_DISTURB event and the
  actor's disturb counter still 0.
\<close>

theorem gamble_on_sleeping_pet_not_disturbance:
  "is_alive ((new_chat 1 0)\<lparr>is_sleeping := True\<rparr>)
   \<and> is_sleeping ((new_chat 1 0)\<lparr>is_sleeping := True\<rparr>)
   \<and> cmd_gamble False
        \<lparr>pet = Some ((new_chat 1 0)\<lparr>is_sleeping := True\<rparr>), users = Map.empty, events = []\<rparr>
     = (\<lparr>pet = Some ((new_chat 1 0)\<lparr>is_sleeping := True\<rparr>), users = Map.empty, events = []\<rparr>,
        GambleOffer)
   \<and> callback_gamble_play 1 7 3
        \<lparr>pet = Some ((new_chat 1 0)\<lparr>is_sleeping := True\<rparr>), users = Map.empty, events = []\<rparr>
     = (\<lparr>pet = Some ((new_chat 1 0)\<lparr>is_sleeping := True, hunger := 70, mood := 100,
                                     health := 100, last_interaction := Some 3\<rparr>),
         users = [7 \<mapsto> new_user\<lparr>gamble_losses := 1, karma_points := - 5,
                                  night_disturb_count := 0\<rparr>],
         events = [\<lparr>event_type = GAMBLE_LOSS, user_id = Some 7\<rparr>]\<rparr>,
        Lost 70)"
  by (simp add: cmd_gamble_def callback_gamble_play_def choice_def new_chat_def update_stats_def
        clamp_stat_def on_pet_def create_event_def increment_stat_def valid_stats_def
        get_or_create_def setattr_user_def new_user_def Let_def)

end
